theory Spec2Isabelle
  imports Main "HOL-Library.Word"
begin

section \<open>The cellular example: connect with retry, then one echo round trip\<close>

text \<open>
  The program under verification is \<^verbatim>\<open>main.cpp\<close> of the Mbed OS cellular example. It is a
  linear sequence of calls into the cellular interface object \<^verbatim>\<open>iface\<close> and into one socket
  object. Both live in Mbed OS and are not part of the program, so the model takes them as a
  parameter: a record of operations over an arbitrary state \<open>'w\<close> of the outside world (modem,
  network stack and socket). Every call the program makes to them, every text it writes through
  \<^verbatim>\<open>print_function\<close> and every \<^verbatim>\<open>wait\<close> is appended, in program order, to a trace.
\<close>

subsection \<open>Result codes and constants\<close>

text \<open>
  \<^verbatim>\<open>nsapi_error_t\<close> and \<^verbatim>\<open>nsapi_size_or_error_t\<close> are \<^verbatim>\<open>signed int\<close>: 32-bit words read
  with \<open>sint\<close>. \<^verbatim>\<open>int\<close> (the type of \<^verbatim>\<open>n\<close> and of the result of \<^verbatim>\<open>main\<close>) is the same type.
\<close>

type_synonym nsapi_error_t = "32 word"
type_synonym nsapi_size_or_error_t = "32 word"

text \<open>
  Modelled from the spec: the two result codes of Mbed OS's \<^verbatim>\<open>nsapi_types.h\<close> that the program
  names; the header is not among the sources. The spec calls them "success" and "authentication
  failure"; the values are those of Mbed OS. The program itself relies on success being 0: it
  returns the literal 0 from \<^verbatim>\<open>test_send_recv\<close> and compares it with \<^verbatim>\<open>NSAPI_ERROR_OK\<close>.
\<close>

definition NSAPI_ERROR_OK :: nsapi_error_t where
  "NSAPI_ERROR_OK = 0"

definition NSAPI_ERROR_AUTH_FAILURE :: nsapi_error_t where
  "NSAPI_ERROR_AUTH_FAILURE = - 3011"

text \<open>\<^verbatim>\<open>#define RETRY_COUNT 3\<close>; the comparison with the \<^verbatim>\<open>uint8_t\<close> counter is done in \<^verbatim>\<open>int\<close>.\<close>

definition RETRY_COUNT :: int where
  "RETRY_COUNT = 3"

definition host_name :: string where
  "host_name = ''echo.mbedcloudtesting.com''"

definition port :: int where
  "port = 7"

definition PRINT_TEXT_LENGTH :: nat where
  "PRINT_TEXT_LENGTH = 128"

subsection \<open>Build configuration\<close>

text \<open>
  The \<^verbatim>\<open>MBED_CONF_...\<close> macros come from the build; the conditional compilation on them becomes
  a test of a configuration value. \<^verbatim>\<open>NULL\<close> strings are \<open>None\<close>.
\<close>

datatype sock_type = UDP | TCP

record config =
  MBED_CONF_APP_SOCK_TYPE :: sock_type
  MBED_CONF_MBED_TRACE_ENABLE :: bool
  MBED_CONF_APP_MODEM_TRACE :: bool
  MBED_CONF_APP_CELLULAR_SIM_PIN :: "string option"
  MBED_CONF_APP_APN :: "string option"
  MBED_CONF_APP_USERNAME :: "string option"
  MBED_CONF_APP_PASSWORD :: "string option"

subsection \<open>The interface and the socket, as parameters\<close>

text \<open>\<^verbatim>\<open>SocketAddress\<close>: the raw address bytes and a 16-bit port; default-constructed it is empty.\<close>

record socket_address =
  sa_addr :: "8 word list"
  sa_port :: "16 word"

definition SocketAddress :: socket_address where
  "SocketAddress = \<lparr>sa_addr = [], sa_port = 0\<rparr>"

definition set_port :: "int \<Rightarrow> socket_address \<Rightarrow> socket_address" where
  "set_port p a = a\<lparr>sa_port := word_of_int p\<rparr>"

text \<open>
  The operations of \<^verbatim>\<open>iface\<close> and of the socket that the program calls. A call takes the
  world and gives back its result and the new world. \<^verbatim>\<open>is_connected\<close> and
  \<^verbatim>\<open>get_ip_address\<close> are queries. \<^verbatim>\<open>gethostbyname\<close> receives the address object it writes to.
  The receive operations get the size of the buffer; the bytes they store in \<^verbatim>\<open>recv_buf\<close> (and
  the sender address \<^verbatim>\<open>recvfrom\<close> stores) are never read by the program and are left out.
  \<open>sock_destructor\<close> is the destructor of the socket object: the program does not name it, C++
  calls it where the object goes out of scope; what it does is the library's, like the rest.
\<close>

record 'w api =
  is_connected :: "'w \<Rightarrow> bool"
  connect :: "'w \<Rightarrow> nsapi_error_t \<times> 'w"
  get_ip_address :: "'w \<Rightarrow> string option"
  modem_debug_on :: "bool \<Rightarrow> 'w \<Rightarrow> 'w"
  set_sim_pin :: "string option \<Rightarrow> 'w \<Rightarrow> 'w"
  set_credentials :: "string option \<Rightarrow> string option \<Rightarrow> string option \<Rightarrow> 'w \<Rightarrow> 'w"
  gethostbyname :: "string \<Rightarrow> socket_address \<Rightarrow> 'w \<Rightarrow> (nsapi_error_t \<times> socket_address) \<times> 'w"
  sock_open :: "'w \<Rightarrow> nsapi_error_t \<times> 'w"
  sock_set_timeout :: "int \<Rightarrow> 'w \<Rightarrow> 'w"
  sock_connect :: "socket_address \<Rightarrow> 'w \<Rightarrow> nsapi_error_t \<times> 'w"
  sock_send :: "string \<Rightarrow> 'w \<Rightarrow> nsapi_size_or_error_t \<times> 'w"
  sock_recv :: "nat \<Rightarrow> 'w \<Rightarrow> nsapi_size_or_error_t \<times> 'w"
  sock_sendto :: "socket_address \<Rightarrow> string \<Rightarrow> 'w \<Rightarrow> nsapi_size_or_error_t \<times> 'w"
  sock_recvfrom :: "nat \<Rightarrow> 'w \<Rightarrow> nsapi_size_or_error_t \<times> 'w"
  sock_close :: "'w \<Rightarrow> 'w"
  sock_destructor :: "'w \<Rightarrow> 'w"

subsection \<open>Program state and trace\<close>

datatype event =
    Print string
  | Wait nat
  | Trace_open
  | Trace_close
  | Tr_info "string option"
  | Thread_start
  | Modem_debug_on bool
  | Set_sim_pin "string option"
  | Set_credentials "string option" "string option" "string option"
  | Is_connected bool
  | Connect nsapi_error_t
  | Gethostbyname string nsapi_error_t
  | Sock_open nsapi_error_t
  | Sock_set_timeout int
  | Sock_connect socket_address nsapi_error_t
  | Sock_send string nsapi_size_or_error_t
  | Sock_recv nat nsapi_size_or_error_t
  | Sock_sendto socket_address string nsapi_size_or_error_t
  | Sock_recvfrom nat nsapi_size_or_error_t
  | Sock_close
  | Sock_destructor

text \<open>
  \<open>world\<close> is the state behind \<^verbatim>\<open>iface\<close> and the socket, \<open>print_text\<close> the global buffer of that
  name, \<open>trace\<close> what the program has done so far.
\<close>

record 'w pstate =
  world :: 'w
  print_text :: string
  trace :: "event list"

definition emit :: "event \<Rightarrow> 'w pstate \<Rightarrow> 'w pstate" where
  "emit e st = st\<lparr>trace := trace st @ [e]\<rparr>"

subsection \<open>Printing\<close>

text \<open>
  \<^verbatim>\<open>print_function\<close> writes its argument to the console (under the trace mutex, which a
  model of one thread has no use for).
\<close>

definition print_function :: "string \<Rightarrow> 'w pstate \<Rightarrow> 'w pstate" where
  "print_function input_string st = emit (Print input_string) st"

text \<open>\<^verbatim>\<open>%d\<close> of a \<^verbatim>\<open>signed int\<close>.\<close>

fun show_nat :: "nat \<Rightarrow> string" where
  "show_nat n =
     (if n < 10 then [''0123456789'' ! n]
      else show_nat (n div 10) @ [''0123456789'' ! (n mod 10)])"

definition show_int :: "int \<Rightarrow> string" where
  "show_int i = (if i < 0 then ''-'' @ show_nat (nat (- i)) else show_nat (nat i))"

text \<open>
  \<^verbatim>\<open>snprintf(print_text, PRINT_TEXT_LENGTH, ...)\<close> stores the formatted text, cut to what fits
  before the terminating zero.
\<close>

definition snprintf_print_text :: "string \<Rightarrow> 'w pstate \<Rightarrow> 'w pstate" where
  "snprintf_print_text formatted st = st\<lparr>print_text := take (PRINT_TEXT_LENGTH - 1) formatted\<rparr>"

subsection \<open>Calls into the interface\<close>

definition iface_is_connected :: "'w api \<Rightarrow> 'w pstate \<Rightarrow> bool \<times> 'w pstate" where
  "iface_is_connected iface st =
     (let c = is_connected iface (world st) in (c, emit (Is_connected c) st))"

definition iface_connect :: "'w api \<Rightarrow> 'w pstate \<Rightarrow> nsapi_error_t \<times> 'w pstate" where
  "iface_connect iface st =
     (let (r, w) = connect iface (world st) in (r, emit (Connect r) (st\<lparr>world := w\<rparr>)))"

text \<open>
  \<^verbatim>\<open>tr_info("IP address %s", iface.get_ip_address())\<close>: with tracing compiled out the macro is
  empty and the argument is not evaluated.
\<close>

definition tr_info_ip_address :: "config \<Rightarrow> 'w api \<Rightarrow> 'w pstate \<Rightarrow> 'w pstate" where
  "tr_info_ip_address cfg iface st =
     (if MBED_CONF_MBED_TRACE_ENABLE cfg then emit (Tr_info (get_ip_address iface (world st))) st
      else st)"

subsection \<open>do_connect\<close>

text \<open>
  The \<^verbatim>\<open>while\<close> loop of \<^verbatim>\<open>do_connect\<close>, from its condition on, with the value of
  \<^verbatim>\<open>retry_counter\<close>. The result is \<open>Some retcode\<close> where the loop body returns from the function
  and \<open>None\<close> where the loop is left (by its condition or by \<^verbatim>\<open>break\<close>).
\<close>

function do_connect_loop ::
  "'w api \<Rightarrow> 8 word \<Rightarrow> 'w pstate \<Rightarrow> nsapi_error_t option \<times> 'w pstate" where
  "do_connect_loop iface retry_counter st =
     (let (c, st1) = iface_is_connected iface st in
      if c then (None, st1)
      else
        (let (retcode, st2) = iface_connect iface st1 in
         if retcode = NSAPI_ERROR_AUTH_FAILURE then
           (Some retcode,
            print_function ''\<newline>\<newline>Authentication Failure. Exiting application\<newline>'' st2)
         else if retcode \<noteq> NSAPI_ERROR_OK \<and> uint retry_counter > RETRY_COUNT then
           (let st3 = snprintf_print_text
                  (''\<newline>\<newline>Fatal connection failure: '' @ show_int (sint retcode) @ ''\<newline>'') st2
            in (Some retcode, print_function (print_text st3) st3))
         else if retcode \<noteq> NSAPI_ERROR_OK then
           (let st3 = snprintf_print_text
                  (''\<newline>\<newline>Couldn't connect: '' @ show_int (sint retcode) @ '', will retry\<newline>'') st2
            in do_connect_loop iface (retry_counter + 1) (print_function (print_text st3) st3))
         else (None, st2)))"
  by pat_completeness auto

termination do_connect_loop
proof (relation "measure (\<lambda>(iface, retry_counter, st). nat (4 - uint retry_counter))", goal_cases)
  case 1
  show ?case by simp
next
  case (2 iface retry_counter st x c st1 x2 retcode st2 st3)
  then have le: "uint retry_counter \<le> 3"
    by (simp add: RETRY_COUNT_def)
  then have "uint (retry_counter + 1) = uint retry_counter + 1"
    by (simp add: uint_word_ariths)
  with le show ?case
    by simp
qed

declare do_connect_loop.simps [simp del]

definition do_connect :: "config \<Rightarrow> 'w api \<Rightarrow> 'w pstate \<Rightarrow> nsapi_error_t \<times> 'w pstate" where
  "do_connect cfg iface st =
     (case do_connect_loop iface 0 st of
        (Some retcode, st1) \<Rightarrow> (retcode, st1)
      | (None, st1) \<Rightarrow>
          (let st2 = print_function ''\<newline>\<newline>Connection Established.\<newline>'' st1;
               st3 = tr_info_ip_address cfg iface st2
           in (NSAPI_ERROR_OK, st3)))"

subsection \<open>test_send_recv\<close>

definition socket_open :: "'w api \<Rightarrow> 'w pstate \<Rightarrow> nsapi_error_t \<times> 'w pstate" where
  "socket_open iface st =
     (let (r, w) = sock_open iface (world st) in (r, emit (Sock_open r) (st\<lparr>world := w\<rparr>)))"

definition iface_gethostbyname ::
  "'w api \<Rightarrow> string \<Rightarrow> socket_address \<Rightarrow> 'w pstate \<Rightarrow> (nsapi_error_t \<times> socket_address) \<times> 'w pstate" where
  "iface_gethostbyname iface name a st =
     (let ((r, a'), w) = gethostbyname iface name a (world st)
      in ((r, a'), emit (Gethostbyname name r) (st\<lparr>world := w\<rparr>)))"

definition socket_set_timeout :: "'w api \<Rightarrow> int \<Rightarrow> 'w pstate \<Rightarrow> 'w pstate" where
  "socket_set_timeout iface t st =
     emit (Sock_set_timeout t) (st\<lparr>world := sock_set_timeout iface t (world st)\<rparr>)"

definition socket_connect ::
  "'w api \<Rightarrow> socket_address \<Rightarrow> 'w pstate \<Rightarrow> nsapi_error_t \<times> 'w pstate" where
  "socket_connect iface a st =
     (let (r, w) = sock_connect iface a (world st) in (r, emit (Sock_connect a r) (st\<lparr>world := w\<rparr>)))"

definition socket_send ::
  "'w api \<Rightarrow> string \<Rightarrow> 'w pstate \<Rightarrow> nsapi_size_or_error_t \<times> 'w pstate" where
  "socket_send iface d st =
     (let (r, w) = sock_send iface d (world st) in (r, emit (Sock_send d r) (st\<lparr>world := w\<rparr>)))"

definition socket_recv ::
  "'w api \<Rightarrow> nat \<Rightarrow> 'w pstate \<Rightarrow> nsapi_size_or_error_t \<times> 'w pstate" where
  "socket_recv iface len st =
     (let (r, w) = sock_recv iface len (world st) in (r, emit (Sock_recv len r) (st\<lparr>world := w\<rparr>)))"

definition socket_sendto ::
  "'w api \<Rightarrow> socket_address \<Rightarrow> string \<Rightarrow> 'w pstate \<Rightarrow> nsapi_size_or_error_t \<times> 'w pstate" where
  "socket_sendto iface a d st =
     (let (r, w) = sock_sendto iface a d (world st)
      in (r, emit (Sock_sendto a d r) (st\<lparr>world := w\<rparr>)))"

definition socket_recvfrom ::
  "'w api \<Rightarrow> nat \<Rightarrow> 'w pstate \<Rightarrow> nsapi_size_or_error_t \<times> 'w pstate" where
  "socket_recvfrom iface len st =
     (let (r, w) = sock_recvfrom iface len (world st)
      in (r, emit (Sock_recvfrom len r) (st\<lparr>world := w\<rparr>)))"

definition socket_close :: "'w api \<Rightarrow> 'w pstate \<Rightarrow> 'w pstate" where
  "socket_close iface st = emit Sock_close (st\<lparr>world := sock_close iface (world st)\<rparr>)"

text \<open>
  \<^verbatim>\<open>sock\<close> is a local object of \<^verbatim>\<open>test_send_recv\<close> (line 172 or 174), so C++ runs its
  destructor at every \<^verbatim>\<open>return\<close> of the function, the early ones included. This is a call of
  its own, not a call of \<^verbatim>\<open>close()\<close>: the only \<^verbatim>\<open>sock.close()\<close> of the program is line 235.
\<close>

definition socket_destructor :: "'w api \<Rightarrow> 'w pstate \<Rightarrow> 'w pstate" where
  "socket_destructor iface st =
     emit Sock_destructor (st\<lparr>world := sock_destructor iface (world st)\<rparr>)"

text \<open>
  \<^verbatim>\<open>echo_string\<close> points to the literal \<^verbatim>\<open>"TEST"\<close>, five bytes with the terminating zero.
  The length passed to \<^verbatim>\<open>send\<close> and \<^verbatim>\<open>sendto\<close> is \<^verbatim>\<open>sizeof(echo_string)\<close>, the size of a
  \<^verbatim>\<open>const char *\<close>: 4 on the 32-bit Arm targets Mbed OS runs on. \<^verbatim>\<open>recv_buf\<close> is
  \<^verbatim>\<open>char[4]\<close>.
\<close>

definition echo_string :: string where
  "echo_string = ''TEST'' @ [CHR 0x00]"

definition sizeof_echo_string :: nat where
  "sizeof_echo_string = 4"

definition sizeof_recv_buf :: nat where
  "sizeof_recv_buf = 4"

text \<open>
  The transport-specific part, lines 198 to 233. \<open>Inl r\<close>: the function returns \<open>r\<close> from
  here; \<open>Inr n\<close>: the receive call was made and gave \<open>n\<close>.
\<close>

definition exchange_tcp ::
  "'w api \<Rightarrow> socket_address \<Rightarrow> 'w pstate \<Rightarrow> (nsapi_error_t + 32 word) \<times> 'w pstate" where
  "exchange_tcp iface sock_addr st =
     (let (retcode, st1) = socket_connect iface sock_addr st in
      if sint retcode < 0 then
        (let st2 = snprintf_print_text
               (''TCPSocket.connect() fails, code: '' @ show_int (sint retcode) @ ''\<newline>'') st1
         in (Inl (- 1), print_function (print_text st2) st2))
      else
        (let st2 = snprintf_print_text (''TCP: connected with '' @ host_name @ '' server\<newline>'') st1;
             st3 = print_function (print_text st2) st2;
             (retcode', st4) = socket_send iface (take sizeof_echo_string echo_string) st3
         in
           if sint retcode' < 0 then
             (let st5 = snprintf_print_text
                    (''TCPSocket.send() fails, code: '' @ show_int (sint retcode') @ ''\<newline>'') st4
              in (Inl (- 1), print_function (print_text st5) st5))
           else
             (let st5 = snprintf_print_text
                    (''TCP: Sent '' @ show_int (sint retcode') @ '' Bytes to '' @ host_name @ ''\<newline>'') st4;
                  st6 = print_function (print_text st5) st5;
                  (n, st7) = socket_recv iface sizeof_recv_buf st6
              in (Inr n, st7))))"

definition exchange_udp ::
  "'w api \<Rightarrow> socket_address \<Rightarrow> 'w pstate \<Rightarrow> (nsapi_error_t + 32 word) \<times> 'w pstate" where
  "exchange_udp iface sock_addr st =
     (let (retcode, st1) = socket_sendto iface sock_addr (take sizeof_echo_string echo_string) st in
      if sint retcode < 0 then
        (let st2 = snprintf_print_text
               (''UDPSocket.sendto() fails, code: '' @ show_int (sint retcode) @ ''\<newline>'') st1
         in (Inl (- 1), print_function (print_text st2) st2))
      else
        (let st2 = snprintf_print_text
               (''UDP: Sent '' @ show_int (sint retcode) @ '' Bytes to '' @ host_name @ ''\<newline>'') st1;
             st3 = print_function (print_text st2) st2;
             (n, st4) = socket_recvfrom iface sizeof_recv_buf st3
         in (Inr n, st4)))"

text \<open>\<^verbatim>\<open>#if MBED_CONF_APP_SOCK_TYPE == TCP ... #else ... #endif\<close>\<close>

definition exchange ::
  "config \<Rightarrow> 'w api \<Rightarrow> socket_address \<Rightarrow> 'w pstate \<Rightarrow> (nsapi_error_t + 32 word) \<times> 'w pstate" where
  "exchange cfg iface sock_addr st =
     (case MBED_CONF_APP_SOCK_TYPE cfg of
        TCP \<Rightarrow> exchange_tcp iface sock_addr st
      | UDP \<Rightarrow> exchange_udp iface sock_addr st)"

definition test_send_recv :: "config \<Rightarrow> 'w api \<Rightarrow> 'w pstate \<Rightarrow> nsapi_error_t \<times> 'w pstate" where
  "test_send_recv cfg iface st =
     (let (retcode, st1) = socket_open iface st in
      if retcode \<noteq> NSAPI_ERROR_OK then
        (let st2 = snprintf_print_text
               (''Socket.open() fails, code: '' @ show_int (sint retcode) @ ''\<newline>'') st1;
             st3 = print_function (print_text st2) st2
         in (- 1, socket_destructor iface st3))
      else
        (let ((retcode', sock_addr), st2) = iface_gethostbyname iface host_name SocketAddress st1 in
         if retcode' \<noteq> NSAPI_ERROR_OK then
           (let st3 = snprintf_print_text
                  (''Couldn't resolve remote host: '' @ host_name @ '', code: ''
                     @ show_int (sint retcode') @ ''\<newline>'') st2;
                st4 = print_function (print_text st3) st3
            in (- 1, socket_destructor iface st4))
         else
           (let sock_addr' = set_port port sock_addr;
                st3 = socket_set_timeout iface 15000 st2
            in
              case exchange cfg iface sock_addr' st3 of
                (Inl r, st4) \<Rightarrow> (r, socket_destructor iface st4)
              | (Inr n, st4) \<Rightarrow>
                  (let st5 = socket_close iface st4 in
                   if 0 < sint n then
                     (let st6 = snprintf_print_text
                            (''Received from echo server '' @ show_int (sint n) @ '' Bytes\<newline>'') st5;
                          st7 = print_function (print_text st6) st6
                      in (0, socket_destructor iface st7))
                   else (- 1, socket_destructor iface st5)))))"

subsection \<open>main\<close>

text \<open>
  The main thread. Where tracing is compiled out it starts the thread that runs
  \<^verbatim>\<open>dot_event\<close>; that thread is modelled on its own below and what it prints is not part of
  this trace.
\<close>

definition trace_open :: "'w pstate \<Rightarrow> 'w pstate" where
  "trace_open st = emit Trace_open st"

definition trace_close :: "'w pstate \<Rightarrow> 'w pstate" where
  "trace_close st = emit Trace_close st"

text \<open>Lines 248 to 265: everything \<^verbatim>\<open>main\<close> does before it calls \<^verbatim>\<open>do_connect\<close>.\<close>

definition main_setup :: "config \<Rightarrow> 'w api \<Rightarrow> 'w pstate \<Rightarrow> 'w pstate" where
  "main_setup cfg iface st =
     (let st1 = trace_open st;
          st2 = print_function ''\<newline>\<newline>mbed-os-example-cellular\<newline>'' st1;
          st3 = emit (Modem_debug_on (MBED_CONF_APP_MODEM_TRACE cfg))
                  (st2\<lparr>world := modem_debug_on iface (MBED_CONF_APP_MODEM_TRACE cfg) (world st2)\<rparr>);
          st4 = emit (Set_sim_pin (MBED_CONF_APP_CELLULAR_SIM_PIN cfg))
                  (st3\<lparr>world := set_sim_pin iface (MBED_CONF_APP_CELLULAR_SIM_PIN cfg) (world st3)\<rparr>);
          st5 = print_function ''PIN code set\<newline>'' st4;
          st6 = emit (Set_credentials (MBED_CONF_APP_APN cfg) (MBED_CONF_APP_USERNAME cfg)
                        (MBED_CONF_APP_PASSWORD cfg))
                  (st5\<lparr>world := set_credentials iface (MBED_CONF_APP_APN cfg)
                                   (MBED_CONF_APP_USERNAME cfg) (MBED_CONF_APP_PASSWORD cfg) (world st5)\<rparr>);
          st7 = print_function ''Establishing connection\<newline>'' st6
      in if \<not> MBED_CONF_MBED_TRACE_ENABLE cfg then emit Thread_start st7 else st7)"

text \<open>Lines 277 to 280, reached from both failing branches.\<close>

definition main_failure :: "'w pstate \<Rightarrow> 32 word \<times> 'w pstate" where
  "main_failure st = (- 1, trace_close (print_function ''\<newline>\<newline>Failure. Exiting \<newline>\<newline>'' st))"

definition main :: "config \<Rightarrow> 'w api \<Rightarrow> 'w pstate \<Rightarrow> 32 word \<times> 'w pstate" where
  "main cfg iface st =
     (let st1 = main_setup cfg iface st;
          (r, st2) = do_connect cfg iface st1
      in
        if r = NSAPI_ERROR_OK then
          (let (retcode, st3) = test_send_recv cfg iface st2 in
           if retcode = NSAPI_ERROR_OK then
             (0, trace_close (print_function ''\<newline>\<newline>Success. Exiting \<newline>\<newline>'' st3))
           else main_failure st3)
        else main_failure st2)"

subsection \<open>dot_event\<close>

text \<open>
  The thread of the progress dots. While it sleeps in \<^verbatim>\<open>wait(4)\<close> the rest of the system goes
  on; \<open>meanwhile s\<close> is what that does to the world during a sleep of \<open>s\<close> seconds. The loop
  has no bound of its own, so the function is partial: \<open>None\<close> is a loop that never ends.
\<close>

definition wait :: "nat \<Rightarrow> (nat \<Rightarrow> 'w \<Rightarrow> 'w) \<Rightarrow> 'w pstate \<Rightarrow> 'w pstate" where
  "wait s meanwhile st = emit (Wait s) (st\<lparr>world := meanwhile s (world st)\<rparr>)"

partial_function (option) dot_event ::
  "'w api \<Rightarrow> (nat \<Rightarrow> 'w \<Rightarrow> 'w) \<Rightarrow> 'w pstate \<Rightarrow> 'w pstate option" where
  "dot_event iface meanwhile st =
     (let st1 = wait 4 meanwhile st;
          (c, st2) = iface_is_connected iface st1
      in if \<not> c then dot_event iface meanwhile (print_function ''.'' st2) else Some st2)"

section \<open>Vocabulary of the properties\<close>

text \<open>What a run has appended to the trace it started from.\<close>

definition new_events :: "'w pstate \<Rightarrow> 'w pstate \<Rightarrow> event list" where
  "new_events st st' = drop (length (trace st)) (trace st')"

fun is_connect_call :: "event \<Rightarrow> bool" where
  "is_connect_call (Connect r) = True"
| "is_connect_call e = False"

definition connect_attempts :: "event list \<Rightarrow> nat" where
  "connect_attempts evs = length (filter is_connect_call evs)"

text \<open>
  One pass through the body of the loop of \<^verbatim>\<open>do_connect\<close>, entered in \<open>st\<close> with the
  interface not connected: what \<^verbatim>\<open>connect\<close> returns, the state after the call, and the
  state after the notice of the retrying and of the fatal branch.
\<close>

definition attempt_result :: "'w api \<Rightarrow> 'w pstate \<Rightarrow> nsapi_error_t" where
  "attempt_result iface st = fst (connect iface (world st))"

definition after_attempt :: "'w api \<Rightarrow> 'w pstate \<Rightarrow> 'w pstate" where
  "after_attempt iface st = snd (iface_connect iface (snd (iface_is_connected iface st)))"

definition after_retry_notice :: "'w api \<Rightarrow> 'w pstate \<Rightarrow> 'w pstate" where
  "after_retry_notice iface st =
     (let st3 = snprintf_print_text
            (''\<newline>\<newline>Couldn't connect: '' @ show_int (sint (attempt_result iface st)) @ '', will retry\<newline>'')
            (after_attempt iface st)
      in print_function (print_text st3) st3)"

definition after_fatal_notice :: "'w api \<Rightarrow> 'w pstate \<Rightarrow> 'w pstate" where
  "after_fatal_notice iface st =
     (let st3 = snprintf_print_text
            (''\<newline>\<newline>Fatal connection failure: '' @ show_int (sint (attempt_result iface st)) @ ''\<newline>'')
            (after_attempt iface st)
      in print_function (print_text st3) st3)"

text \<open>
  The calls whose result \<^verbatim>\<open>test_send_recv\<close> tests before it goes on, each with the test
  the source makes, and the two receive calls.
\<close>

fun failed_step :: "event \<Rightarrow> bool" where
  "failed_step (Sock_open r) = (r \<noteq> NSAPI_ERROR_OK)"
| "failed_step (Gethostbyname h r) = (r \<noteq> NSAPI_ERROR_OK)"
| "failed_step (Sock_connect a r) = (sint r < 0)"
| "failed_step (Sock_send d r) = (sint r < 0)"
| "failed_step (Sock_sendto a d r) = (sint r < 0)"
| "failed_step e = False"

fun is_receive :: "event \<Rightarrow> bool" where
  "is_receive (Sock_recv len n) = True"
| "is_receive (Sock_recvfrom len n) = True"
| "is_receive e = False"

fun received :: "event \<Rightarrow> 32 word option" where
  "received (Sock_recv len n) = Some n"
| "received (Sock_recvfrom len n) = Some n"
| "received e = None"

text \<open>
  What the wire protocol asks of a socket call: the payload of a send, the destination of a
  send or connect, the size of the receive buffer. Other events are not constrained.
\<close>

fun echo_call_ok :: "socket_address \<Rightarrow> event \<Rightarrow> bool" where
  "echo_call_ok dest (Sock_connect a r) = (a = dest)"
| "echo_call_ok dest (Sock_send d r) = (d = ''TEST'')"
| "echo_call_ok dest (Sock_sendto a d r) = (a = dest \<and> d = ''TEST'')"
| "echo_call_ok dest (Sock_recv len n) = (len = 4)"
| "echo_call_ok dest (Sock_recvfrom len n) = (len = 4)"
| "echo_call_ok dest e = True"

text \<open>The address \<^verbatim>\<open>gethostbyname\<close> stores when \<^verbatim>\<open>test_send_recv\<close> is run from \<open>st\<close>.\<close>

definition resolved_address :: "'w api \<Rightarrow> 'w pstate \<Rightarrow> socket_address" where
  "resolved_address iface st =
     snd (fst (gethostbyname iface host_name SocketAddress (snd (sock_open iface (world st)))))"

section \<open>Test doubles\<close>

text \<open>
  An interface for concrete runs. Its world is a counter, stepped by every \<^verbatim>\<open>connect\<close>;
  \<open>conn\<close> says at which counts it reports connected and \<open>res\<close> what \<^verbatim>\<open>connect\<close> returns. The
  socket calls return fixed results.
\<close>

definition fake_iface ::
  "(nat \<Rightarrow> bool) \<Rightarrow> (nat \<Rightarrow> nsapi_error_t) \<Rightarrow> nsapi_error_t \<Rightarrow> nsapi_error_t \<Rightarrow> nsapi_error_t
     \<Rightarrow> 32 word \<Rightarrow> 32 word \<Rightarrow> nat api" where
  "fake_iface conn res open_r resolve_r connect_r send_r recv_r =
     \<lparr>is_connected = conn,
      connect = (\<lambda>w. (res w, Suc w)),
      get_ip_address = (\<lambda>w. if conn w then Some ''10.0.0.2'' else None),
      modem_debug_on = (\<lambda>on w. w),
      set_sim_pin = (\<lambda>pin w. w),
      set_credentials = (\<lambda>apn uname pwd w. w),
      gethostbyname = (\<lambda>name a w. ((resolve_r, a\<lparr>sa_addr := [52, 215, 34, 155]\<rparr>), w)),
      sock_open = (\<lambda>w. (open_r, w)),
      sock_set_timeout = (\<lambda>t w. w),
      sock_connect = (\<lambda>a w. (connect_r, w)),
      sock_send = (\<lambda>d w. (send_r, w)),
      sock_recv = (\<lambda>len w. (recv_r, w)),
      sock_sendto = (\<lambda>a d w. (send_r, w)),
      sock_recvfrom = (\<lambda>len w. (recv_r, w)),
      sock_close = (\<lambda>w. w),
      sock_destructor = (\<lambda>w. w)\<rparr>"

definition build :: "sock_type \<Rightarrow> bool \<Rightarrow> config" where
  "build t tracing =
     \<lparr>MBED_CONF_APP_SOCK_TYPE = t, MBED_CONF_MBED_TRACE_ENABLE = tracing,
      MBED_CONF_APP_MODEM_TRACE = False, MBED_CONF_APP_CELLULAR_SIM_PIN = None,
      MBED_CONF_APP_APN = None, MBED_CONF_APP_USERNAME = None, MBED_CONF_APP_PASSWORD = None\<rparr>"

definition start :: "nat pstate" where
  "start = \<lparr>world = 0, print_text = [], trace = []\<rparr>"

text \<open>
  The interfaces of the concrete runs below. \<open>never_connects\<close> answers every \<^verbatim>\<open>connect\<close> with
  -3004 (Mbed OS's \<^verbatim>\<open>NSAPI_ERROR_NO_CONNECTION\<close>); \<open>rejects_credentials\<close> answers with the
  authentication failure; \<open>says_ok_stays_down\<close> answers success and still reports not connected;
  \<open>connects_at k\<close> is connected from the \<open>k\<close>-th step of its world on, and its \<^verbatim>\<open>connect\<close>
  succeeds exactly when it leaves the interface connected. \<open>echo_server\<close> is connected from the
  start and gives the socket calls the stated results.
\<close>

definition never_connects :: "nat api" where
  "never_connects = fake_iface (\<lambda>w. False) (\<lambda>w. - 3004) 0 0 0 4 4"

definition rejects_credentials :: "nat api" where
  "rejects_credentials = fake_iface (\<lambda>w. False) (\<lambda>w. NSAPI_ERROR_AUTH_FAILURE) 0 0 0 4 4"

definition says_ok_stays_down :: "nat api" where
  "says_ok_stays_down = fake_iface (\<lambda>w. False) (\<lambda>w. NSAPI_ERROR_OK) 0 0 0 4 4"

definition connects_at :: "nat \<Rightarrow> nat api" where
  "connects_at k =
     fake_iface (\<lambda>w. k \<le> w) (\<lambda>w. if k \<le> Suc w then NSAPI_ERROR_OK else - 3004) 0 0 0 4 4"

definition echo_server ::
  "nsapi_error_t \<Rightarrow> nsapi_error_t \<Rightarrow> nsapi_error_t \<Rightarrow> 32 word \<Rightarrow> 32 word \<Rightarrow> nat api" where
  "echo_server open_r resolve_r connect_r send_r recv_r =
     fake_iface (\<lambda>w. True) (\<lambda>w. NSAPI_ERROR_OK) open_r resolve_r connect_r send_r recv_r"






section \<open>Basic facts about the calls\<close>

lemma trace_emit [simp]: "trace (emit e st) = trace st @ [e]"
  and world_emit [simp]: "world (emit e st) = world st"
  and trace_print_function [simp]: "trace (print_function s st) = trace st @ [Print s]"
  and world_print_function [simp]: "world (print_function s st) = world st"
  and trace_snprintf [simp]: "trace (snprintf_print_text s st) = trace st"
  and world_snprintf [simp]: "world (snprintf_print_text s st) = world st"
  by (simp_all add: emit_def print_function_def snprintf_print_text_def)

lemma trace_socket_close [simp]: "trace (socket_close iface st) = trace st @ [Sock_close]"
  and trace_socket_destructor [simp]:
    "trace (socket_destructor iface st) = trace st @ [Sock_destructor]"
  and world_socket_destructor [simp]:
    "world (socket_destructor iface st) = sock_destructor iface (world st)"
  and trace_socket_set_timeout [simp]:
    "trace (socket_set_timeout iface t st) = trace st @ [Sock_set_timeout t]"
  by (simp_all add: socket_close_def socket_destructor_def socket_set_timeout_def emit_def)

lemma new_events_append [simp]: "trace st' = trace st @ evs \<Longrightarrow> new_events st st' = evs"
  by (simp add: new_events_def)

lemma connect_attempts_append [simp]:
  "connect_attempts (xs @ ys) = connect_attempts xs + connect_attempts ys"
  by (simp add: connect_attempts_def)

lemma connect_attempts_simps [simp]:
  "connect_attempts [] = 0"
  "connect_attempts (e # evs) = (if is_connect_call e then 1 else 0) + connect_attempts evs"
  by (simp_all add: connect_attempts_def)

lemma received_is_receive: "received e = Some n \<Longrightarrow> is_receive e"
  by (cases e) simp_all

section \<open>The loop of do_connect\<close>

lemma iface_connect_after_query:
  "iface_connect iface (snd (iface_is_connected iface st)) =
     (attempt_result iface st, after_attempt iface st)"
  by (simp add: after_attempt_def attempt_result_def iface_connect_def iface_is_connected_def
      emit_def Let_def split: prod.splits)

lemma after_attempt_eq:
  "after_attempt iface st =
     st\<lparr>world := snd (connect iface (world st)),
        trace := trace st @ [Is_connected (is_connected iface (world st)),
                             Connect (attempt_result iface st)]\<rparr>"
  by (simp add: after_attempt_def attempt_result_def iface_connect_def iface_is_connected_def
      emit_def Let_def split: prod.splits)

lemma after_retry_notice_eq:
  "world (after_retry_notice iface st) = snd (connect iface (world st))"
  "trace (after_retry_notice iface st) =
     trace st @ [Is_connected (is_connected iface (world st)), Connect (attempt_result iface st),
       Print (take (PRINT_TEXT_LENGTH - 1)
         (''\<newline>\<newline>Couldn't connect: '' @ show_int (sint (attempt_result iface st)) @ '', will retry\<newline>''))]"
  by (simp_all add: after_retry_notice_def after_attempt_eq snprintf_print_text_def Let_def)

lemma after_fatal_notice_eq:
  "world (after_fatal_notice iface st) = snd (connect iface (world st))"
  "trace (after_fatal_notice iface st) =
     trace st @ [Is_connected (is_connected iface (world st)), Connect (attempt_result iface st),
       Print (take (PRINT_TEXT_LENGTH - 1)
         (''\<newline>\<newline>Fatal connection failure: '' @ show_int (sint (attempt_result iface st)) @ ''\<newline>''))]"
  by (simp_all add: after_fatal_notice_def after_attempt_eq snprintf_print_text_def Let_def)

text \<open>The loop, one iteration unfolded, with the results of the two calls named.\<close>

lemma do_connect_loop_unfold:
  "do_connect_loop iface retry_counter st =
     (if is_connected iface (world st) then (None, emit (Is_connected True) st)
      else if attempt_result iface st = NSAPI_ERROR_AUTH_FAILURE then
        (Some NSAPI_ERROR_AUTH_FAILURE,
         print_function ''\<newline>\<newline>Authentication Failure. Exiting application\<newline>''
           (after_attempt iface st))
      else if attempt_result iface st \<noteq> NSAPI_ERROR_OK \<and> uint retry_counter > RETRY_COUNT then
        (Some (attempt_result iface st), after_fatal_notice iface st)
      else if attempt_result iface st \<noteq> NSAPI_ERROR_OK then
        do_connect_loop iface (retry_counter + 1) (after_retry_notice iface st)
      else (None, after_attempt iface st))"
proof (cases "is_connected iface (world st)")
  case True
  then show ?thesis
    by (subst do_connect_loop.simps) (simp add: iface_is_connected_def Let_def)
next
  case False
  then have q: "iface_is_connected iface st = (False, snd (iface_is_connected iface st))"
    by (simp add: iface_is_connected_def Let_def)
  show ?thesis
    by (subst do_connect_loop.simps, subst q)
      (simp add: False iface_connect_after_query after_retry_notice_def after_fatal_notice_def
        Let_def del: One_nat_def)
qed

text \<open>
  Induction along the loop: the only recursive call is the retrying branch, taken with the
  counter at most 3, which the increment therefore does not wrap.
\<close>

lemma do_connect_loop_induct [case_names step]:
  assumes "\<And>(iface :: 'w api) (retry_counter :: 8 word) (st :: 'w pstate).
      (\<lbrakk>\<not> is_connected iface (world st); attempt_result iface st \<noteq> NSAPI_ERROR_AUTH_FAILURE;
        attempt_result iface st \<noteq> NSAPI_ERROR_OK; uint retry_counter \<le> 3;
        uint (retry_counter + 1) = uint retry_counter + 1\<rbrakk>
       \<Longrightarrow> P iface (retry_counter + 1) (after_retry_notice iface st))
      \<Longrightarrow> P iface retry_counter st"
  shows "P iface retry_counter st"
proof (induction iface retry_counter st rule: do_connect_loop.induct)
  case (1 iface retry_counter st)
  show ?case
  proof (rule assms)
    assume a: "\<not> is_connected iface (world st)"
      "attempt_result iface st \<noteq> NSAPI_ERROR_AUTH_FAILURE"
      "attempt_result iface st \<noteq> NSAPI_ERROR_OK" "uint retry_counter \<le> 3"
    have q: "(False, snd (iface_is_connected iface st)) = iface_is_connected iface st"
      using a(1) by (simp add: iface_is_connected_def Let_def)
    have c: "(attempt_result iface st, after_attempt iface st) =
        iface_connect iface (snd (iface_is_connected iface st))"
      by (simp add: iface_connect_after_query)
    have "P iface (retry_counter + 1)
            (print_function (print_text (snprintf_print_text
                 (''\<newline>\<newline>Couldn't connect: '' @ show_int (sint (attempt_result iface st)) @ '', will retry\<newline>'')
                 (after_attempt iface st)))
              (snprintf_print_text
                 (''\<newline>\<newline>Couldn't connect: '' @ show_int (sint (attempt_result iface st)) @ '', will retry\<newline>'')
                 (after_attempt iface st)))"
      using a by (intro "1.IH" [OF refl q _ refl c _ _ _ refl]) (simp_all add: RETRY_COUNT_def)
    then show "P iface (retry_counter + 1) (after_retry_notice iface st)"
      by (simp add: after_retry_notice_def Let_def)
  qed
qed

lemma retrying_iff:
  "(\<not> is_connected iface (world st) \<and> attempt_result iface st \<noteq> NSAPI_ERROR_AUTH_FAILURE
      \<and> attempt_result iface st \<noteq> NSAPI_ERROR_OK \<and> uint retry_counter \<le> 3)
   \<Longrightarrow> uint (retry_counter + 1) = uint retry_counter + 1"
  for retry_counter :: "8 word"
  by (simp add: uint_word_ariths)

lemma loop_trace_prefix:
  "\<exists>evs. trace (snd (do_connect_loop iface retry_counter st)) = trace st @ evs"
proof (induction iface retry_counter st rule: do_connect_loop_induct)
  case (step iface retry_counter st)
  show ?case
  proof (cases "\<not> is_connected iface (world st) \<and> attempt_result iface st \<noteq> NSAPI_ERROR_AUTH_FAILURE
      \<and> attempt_result iface st \<noteq> NSAPI_ERROR_OK \<and> uint retry_counter \<le> 3")
    case True
    with retrying_iff [OF True] step obtain evs where
      "trace (snd (do_connect_loop iface (retry_counter + 1) (after_retry_notice iface st)))
        = trace (after_retry_notice iface st) @ evs"
      by blast
    with True show ?thesis
      by (subst do_connect_loop_unfold) (simp add: RETRY_COUNT_def after_retry_notice_eq)
  next
    case False
    then show ?thesis
      by (subst do_connect_loop_unfold)
        (auto simp add: RETRY_COUNT_def after_fatal_notice_eq after_attempt_eq)
  qed
qed

lemma loop_attempts:
  "connect_attempts (trace (snd (do_connect_loop iface retry_counter st)))
     \<le> connect_attempts (trace st)
        + (if uint retry_counter > RETRY_COUNT then 1 else nat (5 - uint retry_counter))"
proof (induction iface retry_counter st rule: do_connect_loop_induct)
  case (step iface retry_counter st)
  show ?case
  proof (cases "\<not> is_connected iface (world st) \<and> attempt_result iface st \<noteq> NSAPI_ERROR_AUTH_FAILURE
      \<and> attempt_result iface st \<noteq> NSAPI_ERROR_OK \<and> uint retry_counter \<le> 3")
    case True
    note inc = retrying_iff [OF True]
    from True inc step
    have "connect_attempts (trace (snd (do_connect_loop iface (retry_counter + 1)
              (after_retry_notice iface st))))
        \<le> connect_attempts (trace (after_retry_notice iface st))
           + (if uint (retry_counter + 1) > RETRY_COUNT then 1
              else nat (5 - uint (retry_counter + 1)))"
      by blast
    with True inc show ?thesis
      by (subst do_connect_loop_unfold)
        (auto simp add: RETRY_COUNT_def after_retry_notice_eq split: if_splits)
  next
    case False
    then show ?thesis
      by (subst do_connect_loop_unfold)
        (auto simp add: RETRY_COUNT_def after_fatal_notice_eq after_attempt_eq)
  qed
qed

text \<open>
  How the loop can end: a returned code is never the success code, and the loop is left only
  after \<^verbatim>\<open>is_connected\<close> has answered true or \<^verbatim>\<open>connect\<close> has returned success.
\<close>

lemma loop_returns_error:
  "fst (do_connect_loop iface retry_counter st) = Some r \<Longrightarrow> r \<noteq> NSAPI_ERROR_OK"
proof (induction iface retry_counter st rule: do_connect_loop_induct)
  case (step iface retry_counter st)
  show ?case
  proof (cases "\<not> is_connected iface (world st) \<and> attempt_result iface st \<noteq> NSAPI_ERROR_AUTH_FAILURE
      \<and> attempt_result iface st \<noteq> NSAPI_ERROR_OK \<and> uint retry_counter \<le> 3")
    case True
    from step.prems True
    have "fst (do_connect_loop iface (retry_counter + 1) (after_retry_notice iface st)) = Some r"
      by (subst (asm) do_connect_loop_unfold) (simp add: RETRY_COUNT_def)
    with True retrying_iff [OF True] step.IH show ?thesis
      by blast
  next
    case False
    with step.prems show ?thesis
      by (subst (asm) do_connect_loop_unfold)
        (auto simp add: RETRY_COUNT_def NSAPI_ERROR_AUTH_FAILURE_def NSAPI_ERROR_OK_def
          split: if_splits)
  qed
qed

lemma loop_left_connected:
  assumes "\<And>w. fst (connect iface w) = NSAPI_ERROR_OK \<Longrightarrow> is_connected iface (snd (connect iface w))"
    and "fst (do_connect_loop iface retry_counter st) = None"
  shows "is_connected iface (world (snd (do_connect_loop iface retry_counter st)))"
  using assms
proof (induction iface retry_counter st rule: do_connect_loop_induct)
  case (step iface retry_counter st)
  show ?case
  proof (cases "\<not> is_connected iface (world st) \<and> attempt_result iface st \<noteq> NSAPI_ERROR_AUTH_FAILURE
      \<and> attempt_result iface st \<noteq> NSAPI_ERROR_OK \<and> uint retry_counter \<le> 3")
    case True
    from step.prems(2) True
    have "fst (do_connect_loop iface (retry_counter + 1) (after_retry_notice iface st)) = None"
      by (subst (asm) do_connect_loop_unfold) (simp add: RETRY_COUNT_def)
    with True retrying_iff [OF True] step.IH step.prems(1)
    have "is_connected iface (world (snd (do_connect_loop iface (retry_counter + 1)
             (after_retry_notice iface st))))"
      by blast
    with True show ?thesis
      by (subst do_connect_loop_unfold) (simp add: RETRY_COUNT_def)
  next
    case False
    with step.prems(2) step.prems(1) [of "world st"] show ?thesis
      by (subst do_connect_loop_unfold, subst (asm) do_connect_loop_unfold)
        (auto simp add: RETRY_COUNT_def after_attempt_eq attempt_result_def split: if_splits)
  qed
qed

lemma do_connect_trace_prefix:
  "\<exists>evs. trace (snd (do_connect cfg iface st)) = trace st @ evs"
proof -
  obtain evs where "trace (snd (do_connect_loop iface 0 st)) = trace st @ evs"
    using loop_trace_prefix by blast
  then show ?thesis
    by (cases "do_connect_loop iface 0 st")
      (auto simp add: do_connect_def tr_info_ip_address_def Let_def split: option.splits)
qed

lemma do_connect_attempts:
  "connect_attempts (trace (snd (do_connect cfg iface st))) =
     connect_attempts (trace (snd (do_connect_loop iface 0 st)))"
  by (cases "do_connect_loop iface 0 st")
     (auto simp add: do_connect_def tr_info_ip_address_def Let_def split: option.splits)

section \<open>Evaluation of concrete runs\<close>

lemmas run_defs =
  fake_iface_def start_def build_def iface_is_connected_def iface_connect_def emit_def
  print_function_def snprintf_print_text_def tr_info_ip_address_def
  NSAPI_ERROR_OK_def NSAPI_ERROR_AUTH_FAILURE_def RETRY_COUNT_def Let_def

section \<open>Properties of do_connect\<close>

text \<open>
  C1. With an interface that never connects and answers every connect with the same error that
  is neither success nor the authentication failure, \<^verbatim>\<open>do_connect\<close> returns that error and
  \<^verbatim>\<open>main\<close> returns -1; but the run makes five calls of \<^verbatim>\<open>connect\<close> (the first and four
  retries), not four: the counter is compared before it is incremented, so the fatal branch is
  taken when four retries have already been made.
\<close>

theorem do_connect_never_connects_five_attempts:
  "fst (do_connect (build TCP False) never_connects start) = - 3004
   \<and> connect_attempts (new_events start (snd (do_connect (build TCP False) never_connects start))) = 5
   \<and> fst (main (build TCP False) never_connects start) = - 1"
  by (simp add: never_connects_def do_connect_def do_connect_loop.simps main_def main_setup_def
      main_failure_def trace_open_def trace_close_def new_events_def run_defs)

text \<open>
  C3, as stated: whenever \<^verbatim>\<open>do_connect\<close> returns \<^verbatim>\<open>NSAPI_ERROR_OK\<close> the interface reports
  connected and has an address. It fails for an interface whose \<^verbatim>\<open>connect\<close> returns success
  while \<^verbatim>\<open>is_connected\<close> stays false: the loop is left by \<^verbatim>\<open>break\<close> on the return code
  alone.
\<close>

theorem do_connect_ok_not_connected:
  "fst (do_connect (build TCP False) says_ok_stays_down start) = NSAPI_ERROR_OK
   \<and> \<not> is_connected says_ok_stays_down
         (world (snd (do_connect (build TCP False) says_ok_stays_down start)))
   \<and> get_ip_address says_ok_stays_down
         (world (snd (do_connect (build TCP False) says_ok_stays_down start))) = None"
  by (simp add: says_ok_stays_down_def do_connect_def do_connect_loop.simps run_defs)

text \<open>
  C3, amended: on an interface whose \<^verbatim>\<open>connect\<close> returns \<^verbatim>\<open>NSAPI_ERROR_OK\<close> only when it
  leaves the interface connected, and which has an address whenever it is connected, a return of
  \<^verbatim>\<open>NSAPI_ERROR_OK\<close> from \<^verbatim>\<open>do_connect\<close> means that the interface reports connected and has
  an address.
\<close>

theorem do_connect_ok_connected:
  assumes "\<And>w. fst (connect iface w) = NSAPI_ERROR_OK \<Longrightarrow> is_connected iface (snd (connect iface w))"
    and "\<And>w. is_connected iface w \<Longrightarrow> get_ip_address iface w \<noteq> None"
    and "fst (do_connect cfg iface st) = NSAPI_ERROR_OK"
  shows "is_connected iface (world (snd (do_connect cfg iface st)))
       \<and> get_ip_address iface (world (snd (do_connect cfg iface st))) \<noteq> None"
proof -
  obtain res st1 where l: "do_connect_loop iface 0 st = (res, st1)"
    by (cases "do_connect_loop iface 0 st")
  have "res = None"
  proof (cases res)
    case (Some r)
    with l loop_returns_error [of iface 0 st r] assms(3) show ?thesis
      by (simp add: do_connect_def)
  qed simp
  with l loop_left_connected [of iface 0 st] assms(1) have "is_connected iface (world st1)"
    by simp
  moreover have "world (snd (do_connect cfg iface st)) = world st1"
    using l \<open>res = None\<close> by (simp add: do_connect_def tr_info_ip_address_def Let_def)
  ultimately show ?thesis
    using assms(2) by simp
qed

theorem do_connect_ok_connected_witness:
  "fst (do_connect (build TCP True) (connects_at 2) start) = NSAPI_ERROR_OK
   \<and> is_connected (connects_at 2) (world (snd (do_connect (build TCP True) (connects_at 2) start)))
   \<and> get_ip_address (connects_at 2)
        (world (snd (do_connect (build TCP True) (connects_at 2) start))) \<noteq> None"
proof -
  have c: "\<And>w. fst (connect (connects_at 2) w) = NSAPI_ERROR_OK
      \<Longrightarrow> is_connected (connects_at 2) (snd (connect (connects_at 2) w))"
    by (simp add: connects_at_def fake_iface_def NSAPI_ERROR_OK_def split: if_splits)
  have a: "\<And>w. is_connected (connects_at 2) w \<Longrightarrow> get_ip_address (connects_at 2) w \<noteq> None"
    by (simp add: connects_at_def fake_iface_def)
  have r: "fst (do_connect (build TCP True) (connects_at 2) start) = NSAPI_ERROR_OK"
    by (simp add: connects_at_def do_connect_def do_connect_loop.simps run_defs)
  from do_connect_ok_connected [of "connects_at 2" "build TCP True" start, OF c a r] r
  show ?thesis by simp
qed

text \<open>
  C6. Whatever the value of the retry counter: if the interface is not connected and the connect
  attempt returns the authentication failure, the loop ends in this iteration with that code as
  the result of \<^verbatim>\<open>do_connect\<close>; the attempt is the only call of \<^verbatim>\<open>connect\<close> made from there,
  followed by the notice alone.
\<close>

theorem do_connect_auth_failure_exits:
  assumes "\<not> is_connected iface (world st)"
    and "fst (connect iface (world st)) = NSAPI_ERROR_AUTH_FAILURE"
  shows "do_connect_loop iface retry_counter st =
      (Some NSAPI_ERROR_AUTH_FAILURE,
       st\<lparr>world := snd (connect iface (world st)),
          trace := trace st @ [Is_connected False, Connect NSAPI_ERROR_AUTH_FAILURE,
             Print ''\<newline>\<newline>Authentication Failure. Exiting application\<newline>'']\<rparr>)"
  using assms
  by (subst do_connect_loop_unfold)
    (simp add: attempt_result_def after_attempt_eq print_function_def emit_def)

theorem do_connect_auth_failure_exits_witness:
  "\<not> is_connected rejects_credentials (world start)
   \<and> fst (connect rejects_credentials (world start)) = NSAPI_ERROR_AUTH_FAILURE
   \<and> do_connect_loop rejects_credentials 2 start =
      (Some NSAPI_ERROR_AUTH_FAILURE,
       start\<lparr>world := 1,
          trace := [Is_connected False, Connect NSAPI_ERROR_AUTH_FAILURE,
             Print ''\<newline>\<newline>Authentication Failure. Exiting application\<newline>'']\<rparr>)"
proof -
  have h: "\<not> is_connected rejects_credentials (world start)"
    "fst (connect rejects_credentials (world start)) = NSAPI_ERROR_AUTH_FAILURE"
    by (simp_all add: rejects_credentials_def fake_iface_def)
  from do_connect_auth_failure_exits [of rejects_credentials start 2, OF h] h show ?thesis
    by (simp add: rejects_credentials_def fake_iface_def start_def)
qed

text \<open>
  C9. \<^verbatim>\<open>do_connect\<close> is a total function: its loop is defined by recursion on a measure, 4
  minus the retry counter, that every retrying iteration decreases. Whatever the interface
  does, a run calls \<^verbatim>\<open>connect\<close> at most five times.
\<close>

theorem do_connect_attempts_bounded:
  "connect_attempts (new_events st (snd (do_connect cfg iface st))) \<le> 5"
proof -
  obtain evs where evs: "trace (snd (do_connect cfg iface st)) = trace st @ evs"
    using do_connect_trace_prefix by blast
  have "connect_attempts (trace (snd (do_connect cfg iface st))) \<le> connect_attempts (trace st) + 5"
    using loop_attempts [of iface 0 st] by (simp add: do_connect_attempts RETRY_COUNT_def)
  with evs show ?thesis
    by simp
qed

text \<open>
  C10. If the interface reports connected when \<^verbatim>\<open>do_connect\<close> is entered, the run consists of
  that one query and the message (and, with tracing compiled in, the trace line with the
  address): there is no call of \<^verbatim>\<open>connect\<close>, the world is the one it started in, and the result
  is \<^verbatim>\<open>NSAPI_ERROR_OK\<close>.
\<close>

theorem do_connect_already_connected:
  assumes "is_connected iface (world st)"
  shows "do_connect cfg iface st =
      (NSAPI_ERROR_OK,
       st\<lparr>trace := trace st @ [Is_connected True, Print ''\<newline>\<newline>Connection Established.\<newline>'']
            @ (if MBED_CONF_MBED_TRACE_ENABLE cfg
               then [Tr_info (get_ip_address iface (world st))] else [])\<rparr>)"
  using assms
  by (simp add: do_connect_def do_connect_loop_unfold tr_info_ip_address_def emit_def
      print_function_def)

theorem do_connect_already_connected_witness:
  "is_connected (connects_at 0) (world start)
   \<and> do_connect (build UDP True) (connects_at 0) start =
      (NSAPI_ERROR_OK,
       start\<lparr>trace := [Is_connected True, Print ''\<newline>\<newline>Connection Established.\<newline>'',
                        Tr_info (Some ''10.0.0.2'')]\<rparr>)"
proof -
  have h: "is_connected (connects_at 0) (world start)"
    by (simp add: connects_at_def fake_iface_def)
  from do_connect_already_connected [of "connects_at 0" start "build UDP True", OF h] h
  show ?thesis
    by (simp add: connects_at_def fake_iface_def start_def build_def)
qed

section \<open>Properties of test_send_recv\<close>

lemmas sock_defs =
  socket_connect_def socket_send_def socket_recv_def socket_sendto_def socket_recvfrom_def
  emit_def print_function_def snprintf_print_text_def

text \<open>
  What one exchange appends to the trace: its socket calls follow the wire protocol and none is
  a \<^verbatim>\<open>close()\<close>; where it ends the transaction it does so with -1, without a receive call, and
  right after the first call that failed, with only the message behind it; where it goes on, no
  tested call has failed and the receive call made is the one whose count it hands on.
\<close>

lemma exchange_tcp_props:
  "\<exists>evs. trace (snd (exchange_tcp iface a st)) = trace st @ evs
     \<and> (\<forall>e \<in> set evs. echo_call_ok a e)
     \<and> Sock_close \<notin> set evs
     \<and> (case fst (exchange_tcp iface a st) of
          Inl r \<Rightarrow> r = - 1 \<and> (\<forall>e \<in> set evs. \<not> is_receive e)
                   \<and> (\<exists>f msg. failed_step f
                          \<and> dropWhile (\<lambda>x. \<not> failed_step x) evs = [f, Print msg])
        | Inr n \<Rightarrow> (\<forall>e \<in> set evs. \<not> failed_step e)
                   \<and> (\<forall>e \<in> set evs. is_receive e \<longrightarrow> received e = Some n))"
proof -
  obtain r1 w1 where c: "sock_connect iface a (world st) = (r1, w1)"
    by (cases "sock_connect iface a (world st)")
  obtain r2 w2 where s: "sock_send iface ''TEST'' w1 = (r2, w2)"
    by (cases "sock_send iface ''TEST'' w1")
  obtain n w3 where r: "sock_recv iface 4 w2 = (n, w3)"
    by (cases "sock_recv iface 4 w2")
  show ?thesis
    using c s r
    by (simp add: exchange_tcp_def sock_defs Let_def echo_string_def sizeof_echo_string_def
        sizeof_recv_buf_def)
qed

lemma exchange_udp_props:
  "\<exists>evs. trace (snd (exchange_udp iface a st)) = trace st @ evs
     \<and> (\<forall>e \<in> set evs. echo_call_ok a e)
     \<and> Sock_close \<notin> set evs
     \<and> (case fst (exchange_udp iface a st) of
          Inl r \<Rightarrow> r = - 1 \<and> (\<forall>e \<in> set evs. \<not> is_receive e)
                   \<and> (\<exists>f msg. failed_step f
                          \<and> dropWhile (\<lambda>x. \<not> failed_step x) evs = [f, Print msg])
        | Inr n \<Rightarrow> (\<forall>e \<in> set evs. \<not> failed_step e)
                   \<and> (\<forall>e \<in> set evs. is_receive e \<longrightarrow> received e = Some n))"
proof -
  obtain r2 w2 where s: "sock_sendto iface a ''TEST'' (world st) = (r2, w2)"
    by (cases "sock_sendto iface a ''TEST'' (world st)")
  obtain n w3 where r: "sock_recvfrom iface 4 w2 = (n, w3)"
    by (cases "sock_recvfrom iface 4 w2")
  show ?thesis
    using s r
    by (simp add: exchange_udp_def sock_defs Let_def echo_string_def sizeof_echo_string_def
        sizeof_recv_buf_def)
qed

lemma exchange_props:
  "\<exists>evs. trace (snd (exchange cfg iface a st)) = trace st @ evs
     \<and> (\<forall>e \<in> set evs. echo_call_ok a e)
     \<and> Sock_close \<notin> set evs
     \<and> (case fst (exchange cfg iface a st) of
          Inl r \<Rightarrow> r = - 1 \<and> (\<forall>e \<in> set evs. \<not> is_receive e)
                   \<and> (\<exists>f msg. failed_step f
                          \<and> dropWhile (\<lambda>x. \<not> failed_step x) evs = [f, Print msg])
        | Inr n \<Rightarrow> (\<forall>e \<in> set evs. \<not> failed_step e)
                   \<and> (\<forall>e \<in> set evs. is_receive e \<longrightarrow> received e = Some n))"
  by (cases "MBED_CONF_APP_SOCK_TYPE cfg")
    (simp_all only: exchange_def sock_type.case exchange_tcp_props exchange_udp_props)

lemma socket_open_cases:
  obtains r st1 where "socket_open iface st = (r, st1)" "trace st1 = trace st @ [Sock_open r]"
    "world st1 = snd (sock_open iface (world st))"
  by (cases "sock_open iface (world st)") (simp add: socket_open_def)

lemma iface_gethostbyname_cases:
  obtains r a st1 where "iface_gethostbyname iface name a0 st = ((r, a), st1)"
    "trace st1 = trace st @ [Gethostbyname name r]"
    "a = snd (fst (gethostbyname iface name a0 (world st)))"
  by (cases "gethostbyname iface name a0 (world st)") (auto simp add: iface_gethostbyname_def)

text \<open>
  The whole transaction, path by path. Every path ends with the destructor of the socket
  object. A path on which a tested call has failed ends with -1, makes no receive call and no
  \<^verbatim>\<open>close()\<close>, and has behind the first failed call only the message and the destructor.
\<close>

lemma test_send_recv_props:
  "\<exists>evs. trace (snd (test_send_recv cfg iface st)) = trace st @ evs
     \<and> (\<forall>e \<in> set evs. echo_call_ok (set_port port (resolved_address iface st)) e)
     \<and> ((\<exists>e \<in> set evs. failed_step e) \<longrightarrow>
           fst (test_send_recv cfg iface st) = - 1 \<and> (\<forall>e \<in> set evs. \<not> is_receive e)
           \<and> Sock_close \<notin> set evs
           \<and> (\<exists>f msg. failed_step f
                 \<and> dropWhile (\<lambda>x. \<not> failed_step x) evs = [f, Print msg, Sock_destructor]))
     \<and> (\<forall>e \<in> set evs. \<forall>n. received e = Some n \<longrightarrow>
           fst (test_send_recv cfg iface st) = (if 0 < sint n then 0 else - 1))
     \<and> (\<exists>w. world (snd (test_send_recv cfg iface st)) = sock_destructor iface w)"
proof -
  obtain r1 st1 where o: "socket_open iface st = (r1, st1)" "trace st1 = trace st @ [Sock_open r1]"
    "world st1 = snd (sock_open iface (world st))"
    by (rule socket_open_cases)
  show ?thesis
  proof (cases "r1 = NSAPI_ERROR_OK")
    case False
    with o show ?thesis
      by (auto simp add: test_send_recv_def Let_def)
  next
    case open_ok: True
    obtain r2 a st2 where
      g: "iface_gethostbyname iface host_name SocketAddress st1 = ((r2, a), st2)"
      "trace st2 = trace st1 @ [Gethostbyname host_name r2]"
      "a = snd (fst (gethostbyname iface host_name SocketAddress (world st1)))"
      by (rule iface_gethostbyname_cases)
    show ?thesis
    proof (cases "r2 = NSAPI_ERROR_OK")
      case False
      with o g open_ok show ?thesis
        by (auto simp add: test_send_recv_def Let_def)
    next
      case resolve_ok: True
      have a: "a = resolved_address iface st"
        using g(3) o(3) by (simp add: resolved_address_def)
      define res where
        "res = fst (exchange cfg iface (set_port port a) (socket_set_timeout iface 15000 st2))"
      define st4 where
        "st4 = snd (exchange cfg iface (set_port port a) (socket_set_timeout iface 15000 st2))"
      have x1: "exchange cfg iface (set_port port a) (socket_set_timeout iface 15000 st2) = (res, st4)"
        by (simp add: res_def st4_def)
      from exchange_props [of cfg iface "set_port port a" "socket_set_timeout iface 15000 st2"]
      obtain evs where x: "trace st4 = trace (socket_set_timeout iface 15000 st2) @ evs"
        "\<forall>e \<in> set evs. echo_call_ok (set_port port a) e"
        "Sock_close \<notin> set evs"
        "case res of
          Inl r \<Rightarrow> r = - 1 \<and> (\<forall>e \<in> set evs. \<not> is_receive e)
                   \<and> (\<exists>f msg. failed_step f
                          \<and> dropWhile (\<lambda>x. \<not> failed_step x) evs = [f, Print msg])
        | Inr n \<Rightarrow> (\<forall>e \<in> set evs. \<not> failed_step e)
                   \<and> (\<forall>e \<in> set evs. is_receive e \<longrightarrow> received e = Some n)"
        unfolding res_def st4_def by blast
      have unfold: "test_send_recv cfg iface st =
         (case res of
            Inl r \<Rightarrow> (r, socket_destructor iface st4)
          | Inr n \<Rightarrow>
              (let st5 = socket_close iface st4 in
               if 0 < sint n then
                 (let st6 = snprintf_print_text
                        (''Received from echo server '' @ show_int (sint n) @ '' Bytes\<newline>'') st5;
                      st7 = print_function (print_text st6) st6
                  in (0, socket_destructor iface st7))
               else (- 1, socket_destructor iface st5)))"
        using o g open_ok resolve_ok x1
        by (simp add: test_send_recv_def Let_def split: sum.splits)
      show ?thesis
      proof (cases res)
        case (Inl r)
        with x(4) obtain f msg where f: "failed_step f"
          "dropWhile (\<lambda>x. \<not> failed_step x) evs = [f, Print msg]"
          by auto
        have "f \<in> set (dropWhile (\<lambda>x. \<not> failed_step x) evs)"
          unfolding f(2) by simp
        then have "f \<in> set evs"
          by (rule set_dropWhileD)
        with f have "dropWhile (\<lambda>x. \<not> failed_step x) (evs @ [Sock_destructor])
            = [f, Print msg, Sock_destructor]"
          by (simp add: dropWhile_append1)
        with Inl x o(2) g(2) open_ok resolve_ok a f(1) show ?thesis
          by (auto simp add: unfold ball_Un dest: received_is_receive)
      next
        case (Inr n)
        with x o(2) g(2) open_ok resolve_ok a show ?thesis
          by (auto simp add: unfold ball_Un Let_def dest: received_is_receive)
      qed
    qed
  qed
qed

lemmas echo_run_defs =
  echo_server_def fake_iface_def start_def build_def test_send_recv_def exchange_def
  exchange_tcp_def exchange_udp_def socket_open_def iface_gethostbyname_def
  socket_set_timeout_def socket_connect_def socket_send_def socket_recv_def socket_sendto_def
  socket_recvfrom_def socket_close_def socket_destructor_def emit_def print_function_def
  snprintf_print_text_def new_events_def echo_string_def sizeof_echo_string_def
  sizeof_recv_buf_def NSAPI_ERROR_OK_def Let_def




text \<open>
  C4. In a run of \<^verbatim>\<open>test_send_recv\<close> that makes the receive call, with \<open>n\<close> the count that call
  returns, the result is 0 if \<open>n\<close> is greater than 0 and -1 otherwise.
\<close>

theorem test_send_recv_result_by_count:
  assumes "e \<in> set (new_events st (snd (test_send_recv cfg iface st)))"
    and "received e = Some n"
  shows "fst (test_send_recv cfg iface st) = (if 0 < sint n then 0 else - 1)"
proof -
  from test_send_recv_props [of cfg iface st] obtain evs where
    evs: "trace (snd (test_send_recv cfg iface st)) = trace st @ evs"
    and res: "\<forall>e \<in> set evs. \<forall>n. received e = Some n \<longrightarrow>
           fst (test_send_recv cfg iface st) = (if 0 < sint n then 0 else - 1)"
    by blast
  from evs have n: "new_events st (snd (test_send_recv cfg iface st)) = evs"
    by simp
  from assms res show ?thesis
    unfolding n by blast
qed

theorem test_send_recv_result_by_count_witness:
  "Sock_recvfrom 4 0
      \<in> set (new_events start (snd (test_send_recv (build UDP False) (echo_server 0 0 0 4 0) start)))
   \<and> received (Sock_recvfrom 4 0) = Some 0
   \<and> fst (test_send_recv (build UDP False) (echo_server 0 0 0 4 0) start) = - 1
   \<and> Sock_recv 4 3
      \<in> set (new_events start (snd (test_send_recv (build TCP False) (echo_server 0 0 0 4 3) start)))
   \<and> received (Sock_recv 4 3) = Some 3
   \<and> fst (test_send_recv (build TCP False) (echo_server 0 0 0 4 3) start) = 0"
proof -
  have h: "Sock_recvfrom 4 0
      \<in> set (new_events start (snd (test_send_recv (build UDP False) (echo_server 0 0 0 4 0) start)))"
    "received (Sock_recvfrom 4 0) = Some 0"
    by (simp_all add: echo_run_defs)
  have k: "Sock_recv 4 3
      \<in> set (new_events start (snd (test_send_recv (build TCP False) (echo_server 0 0 0 4 3) start)))"
    "received (Sock_recv 4 3) = Some 3"
    by (simp_all add: echo_run_defs)
  from test_send_recv_result_by_count [OF h] test_send_recv_result_by_count [OF k] h k
  show ?thesis
    by simp
qed



section \<open>Properties of main\<close>

text \<open>
  C5. \<^verbatim>\<open>main\<close> returns 0 exactly when \<^verbatim>\<open>do_connect\<close>, run after the set-up, returns
  \<^verbatim>\<open>NSAPI_ERROR_OK\<close> and \<^verbatim>\<open>test_send_recv\<close>, run from where \<^verbatim>\<open>do_connect\<close> ended, returns
  0; in every other case it returns -1.
\<close>

theorem main_exit_code:
  "fst (main cfg iface st) =
     (if fst (do_connect cfg iface (main_setup cfg iface st)) = NSAPI_ERROR_OK
         \<and> fst (test_send_recv cfg iface (snd (do_connect cfg iface (main_setup cfg iface st)))) = 0
      then 0 else - 1)
   \<and> ((fst (main cfg iface st) = 0) =
        (fst (do_connect cfg iface (main_setup cfg iface st)) = NSAPI_ERROR_OK
         \<and> fst (test_send_recv cfg iface (snd (do_connect cfg iface (main_setup cfg iface st)))) = 0))"
  by (simp add: main_def main_failure_def NSAPI_ERROR_OK_def Let_def split: prod.splits)

section \<open>Properties of dot_event\<close>

text \<open>One cycle of the loop: the sleep, the query, and the dot or the end.\<close>

lemma dot_event_cycle:
  "dot_event iface meanwhile st =
     (if is_connected iface (meanwhile 4 (world st))
      then Some (st\<lparr>world := meanwhile 4 (world st),
                    trace := trace st @ [Wait 4, Is_connected True]\<rparr>)
      else dot_event iface meanwhile
             (st\<lparr>world := meanwhile 4 (world st),
                 trace := trace st @ [Wait 4, Is_connected False, Print ''.'']\<rparr>))"
  by (subst dot_event.simps)
    (simp add: wait_def iface_is_connected_def emit_def print_function_def Let_def)

lemma dot_event_run:
  assumes "\<forall>j<k. \<not> is_connected iface ((meanwhile 4 ^^ Suc j) (world st))"
    and "is_connected iface ((meanwhile 4 ^^ Suc k) (world st))"
  shows "dot_event iface meanwhile st =
     Some (st\<lparr>world := (meanwhile 4 ^^ Suc k) (world st),
              trace := trace st @ concat (replicate k [Wait 4, Is_connected False, Print ''.''])
                         @ [Wait 4, Is_connected True]\<rparr>)"
  using assms
proof (induction k arbitrary: st)
  case 0
  then show ?case
    by (subst dot_event_cycle) simp
next
  case (Suc k)
  define st' where "st' = st\<lparr>world := meanwhile 4 (world st),
                 trace := trace st @ [Wait 4, Is_connected False, Print ''.'']\<rparr>"
  from Suc.prems(1) have first: "\<not> is_connected iface (meanwhile 4 (world st))"
    by (auto dest: spec [of _ 0])
  have shift: "(meanwhile 4 ^^ Suc j) (world st') = (meanwhile 4 ^^ Suc (Suc j)) (world st)" for j
    by (simp add: st'_def funpow_swap1)
  have "\<forall>j<k. \<not> is_connected iface ((meanwhile 4 ^^ Suc j) (world st'))"
    using Suc.prems(1) unfolding shift by auto
  moreover have "is_connected iface ((meanwhile 4 ^^ Suc k) (world st'))"
    using Suc.prems(2) unfolding shift by simp
  ultimately have "dot_event iface meanwhile st' =
     Some (st'\<lparr>world := (meanwhile 4 ^^ Suc k) (world st'),
              trace := trace st' @ concat (replicate k [Wait 4, Is_connected False, Print ''.''])
                         @ [Wait 4, Is_connected True]\<rparr>)"
    by (rule Suc.IH)
  also have "\<dots> = Some (st\<lparr>world := (meanwhile 4 ^^ Suc (Suc k)) (world st),
              trace := trace st @ concat (replicate (Suc k) [Wait 4, Is_connected False, Print ''.''])
                         @ [Wait 4, Is_connected True]\<rparr>)"
    unfolding shift by (simp add: st'_def)
  finally show ?case
    using first by (subst dot_event_cycle) (simp add: st'_def)
qed

text \<open>
  C8. Every cycle of \<^verbatim>\<open>dot_event\<close> is a sleep of 4 seconds followed by the query; seen
  connected, the thread ends there without a dot; seen not connected, it prints one dot and
  goes into the next cycle. So if the interface is seen not connected after each of the first
  \<open>k\<close> sleeps and connected after the next one, \<^verbatim>\<open>dot_event\<close> returns, and what it has done is
  \<open>k\<close> cycles of sleep, query and one dot, then one more sleep and the query that ends it, with
  no dot after it.
\<close>

theorem dot_event_dots_until_connected:
  "dot_event iface meanwhile st =
     (if is_connected iface (meanwhile 4 (world st))
      then Some (st\<lparr>world := meanwhile 4 (world st),
                    trace := trace st @ [Wait 4, Is_connected True]\<rparr>)
      else dot_event iface meanwhile
             (st\<lparr>world := meanwhile 4 (world st),
                 trace := trace st @ [Wait 4, Is_connected False, Print ''.'']\<rparr>))
   \<and> ((\<forall>j<k. \<not> is_connected iface ((meanwhile 4 ^^ Suc j) (world st)))
        \<and> is_connected iface ((meanwhile 4 ^^ Suc k) (world st))
      \<longrightarrow> dot_event iface meanwhile st =
            Some (st\<lparr>world := (meanwhile 4 ^^ Suc k) (world st),
                     trace := trace st
                       @ concat (replicate k [Wait 4, Is_connected False, Print ''.''])
                       @ [Wait 4, Is_connected True]\<rparr>))"
  using dot_event_cycle [of iface meanwhile st] dot_event_run [of k iface meanwhile st]
  by blast

theorem dot_event_dots_until_connected_witness:
  "\<not> is_connected (connects_at 3) 1
   \<and> \<not> is_connected (connects_at 3) 2
   \<and> is_connected (connects_at 3) 3
   \<and> dot_event (connects_at 3) (\<lambda>s. Suc) start =
       Some (start\<lparr>world := 3,
                   trace := [Wait 4, Is_connected False, Print ''.'',
                             Wait 4, Is_connected False, Print ''.'',
                             Wait 4, Is_connected True]\<rparr>)"
proof -
  have h: "\<forall>j<2. \<not> is_connected (connects_at 3) (((\<lambda>s. Suc) 4 ^^ Suc j) (world start))"
    "is_connected (connects_at 3) (((\<lambda>s. Suc) 4 ^^ Suc 2) (world start))"
    by (simp_all add: connects_at_def fake_iface_def start_def less_Suc_eq numeral_2_eq_2)
  from dot_event_dots_until_connected [of "connects_at 3" "\<lambda>s. Suc" start 2] h
  have "dot_event (connects_at 3) (\<lambda>s. Suc) start =
     Some (start\<lparr>world := ((\<lambda>s. Suc) 4 ^^ Suc 2) (world start),
              trace := trace start @ concat (replicate 2 [Wait 4, Is_connected False, Print ''.''])
                         @ [Wait 4, Is_connected True]\<rparr>)"
    by blast
  then show ?thesis
    by (simp add: connects_at_def fake_iface_def start_def numeral_2_eq_2 numeral_3_eq_3)
qed

end
